theory Spec2Isabelle
  imports Complex_Main "HOL-Library.Sublist"
begin

section \<open>Data models of dashboard.py\<close>

text \<open>
  Python floats are modelled as reals (exact arithmetic), Python ints as \<open>int\<close>,
  \<open>str\<close> as \<open>string\<close>. A float that \<open>json.loads\<close> may deliver can also be
  an infinity or a NaN, so decoded floats carry these three extra values.
\<close>

datatype pyfloat = Finite real | PosInf | NegInf | NaN

datatype json =
    JNull
  | JBool bool
  | JInt int
  | JFloat pyfloat
  | JStr string
  | JArr "json list"
  | JObj "(string \<times> json) list"

text \<open>
  \<open>ArduinoStatus\<close>: mirror of the Arduino HTTP /status response. \<open>raw\<close> is a dict,
  empty by default; a dict is a \<open>JObj\<close> looked up with \<open>map_of\<close>.
\<close>

record ArduinoStatus =
  mode :: string
  paddle :: int
  relay_main :: int
  override :: string
  flush_active :: bool
  gesture_enabled :: bool
  gesture_flush_ms :: int
  gesture_pulse_min_ms :: int
  gesture_pulse_max_ms :: int
  raw :: json
  last_error :: "string option"

definition ArduinoStatus_default :: ArduinoStatus where
  "ArduinoStatus_default =
     \<lparr> mode = ''UNKNOWN'', paddle = 0, relay_main = 0, override = ''off'',
       flush_active = False, gesture_enabled = True, gesture_flush_ms = 0,
       gesture_pulse_min_ms = 0, gesture_pulse_max_ms = 0, raw = JObj [],
       last_error = None \<rparr>"

text \<open>\<open>ShotMetrics\<close>: aggregated shot/scale metrics for the dashboard.\<close>

record ShotMetrics =
  weight_g :: real
  flow_g_s :: real
  shot_time_ms :: int
  target_weight_g :: real
  pressure_bar :: real
  boiler_temp_c :: real
  group_temp_c :: real
  brew_state :: string
  scale_connected :: bool
  "notes" :: string

definition ShotMetrics_default :: ShotMetrics where
  "ShotMetrics_default =
     \<lparr> weight_g = 0, flow_g_s = 0, shot_time_ms = 0, target_weight_g = 0,
       pressure_bar = 0, boiler_temp_c = 0, group_temp_c = 0,
       brew_state = ''IDLE'', scale_connected = False, notes = [] \<rparr>"

text \<open>\<open>ShotMetrics(notes=...)\<close>: every other field at its default.\<close>

definition ShotMetrics_notes :: "string \<Rightarrow> ShotMetrics" where
  "ShotMetrics_notes n = ShotMetrics_default \<lparr> notes := n \<rparr>"

section \<open>Python built-ins used by the sources\<close>

text \<open>\<open>int(x)\<close> of a float truncates toward zero.\<close>

definition py_trunc :: "real \<Rightarrow> int" where
  "py_trunc x = (if 0 \<le> x then \<lfloor>x\<rfloor> else \<lceil>x\<rceil>)"

text \<open>Rounding to the nearest integer, ties to the even neighbour.\<close>

definition round_half_even :: "real \<Rightarrow> int" where
  "round_half_even y =
     (let f = \<lfloor>y\<rfloor>; d = y - of_int f
      in if d < 1 / 2 then f
         else if 1 / 2 < d then f + 1
         else if even f then f else f + 1)"

text \<open>\<open>round(x, ndigits)\<close> for a non-negative number of digits.\<close>

definition py_round :: "real \<Rightarrow> nat \<Rightarrow> real" where
  "py_round x ndigits = of_int (round_half_even (x * 10 ^ ndigits)) / 10 ^ ndigits"

section \<open>SimulatedLaMarzoccoSource\<close>

text \<open>
  The attributes of the simulator. \<open>sim_target_weight_g\<close> is the attribute
  \<open>target_weight_g\<close> (renamed: \<open>ShotMetrics\<close> has a field of that name); the others
  are the private attributes \<open>_shot_active\<close>, \<open>_shot_start\<close>, \<open>_weight\<close>, \<open>_flow\<close>,
  \<open>_pressure\<close>, \<open>_boiler_temp\<close>, \<open>_group_temp\<close>, \<open>_last_update\<close>.
\<close>

record sim =
  sim_target_weight_g :: real
  shot_active :: bool
  shot_start :: real
  weight :: real
  flow :: real
  pressure :: real
  boiler_temp :: real
  group_temp :: real
  last_update :: real

text \<open>\<open>__init__(target_weight_g)\<close>; \<open>now\<close> is the reading of \<open>time.monotonic()\<close>.\<close>

definition sim_init :: "real \<Rightarrow> real \<Rightarrow> sim" where
  "sim_init target now =
     \<lparr> sim_target_weight_g = target, shot_active = False, shot_start = 0,
       weight = 0, flow = 0, pressure = 0, boiler_temp = 94, group_temp = 93,
       last_update = now \<rparr>"

text \<open>
  \<open>notify_arduino(status)\<close>; \<open>now\<close> is the reading of \<open>time.monotonic()\<close> taken when a
  shot starts.
\<close>

definition sim_notify_arduino :: "sim \<Rightarrow> real \<Rightarrow> ArduinoStatus \<Rightarrow> sim" where
  "sim_notify_arduino s now status =
     (if paddle status = 1 \<and> \<not> shot_active s then
        s \<lparr> shot_active := True, shot_start := now, weight := 0, flow := 0 \<rparr>
      else if paddle status = 0 \<and> shot_active s then
        s \<lparr> shot_active := False, flow := 0 \<rparr>
      else s)"

text \<open>
  The four draws of \<open>random.uniform\<close> of one tick, in the order of the source: flow
  (within 0.1), pressure (within 0.3), boiler (within 0.02), group (within 0.015).
\<close>

record jitter =
  j_flow :: real
  j_pressure :: real
  j_boiler :: real
  j_group :: real

definition jitter_bounded :: "jitter \<Rightarrow> bool" where
  "jitter_bounded j \<longleftrightarrow>
     \<bar>j_flow j\<bar> \<le> 1 / 10 \<and> \<bar>j_pressure j\<bar> \<le> 3 / 10 \<and>
     \<bar>j_boiler j\<bar> \<le> 2 / 100 \<and> \<bar>j_group j\<bar> \<le> 15 / 1000"

text \<open>\<open>_tick()\<close>; \<open>now\<close> is the reading of \<open>time.monotonic()\<close>.\<close>

definition sim_tick :: "sim \<Rightarrow> real \<Rightarrow> jitter \<Rightarrow> sim" where
  "sim_tick s now j =
     (let dt = max (1 / 1000) (now - last_update s);
          s1 = s \<lparr> last_update := now \<rparr>;
          s2 =
            (if shot_active s1 then
               (let elapsed = now - shot_start s1;
                    flow_peak = 26 / 10;
                    ramp = min 1 (elapsed / 4);
                    decay = max (2 / 10)
                      (1 - weight s1 / max 1 (sim_target_weight_g s1 * (11 / 10)));
                    f = max 0 (flow_peak * ramp * decay + j_flow j)
                in s1 \<lparr> weight := weight s1 + f * dt, flow := f,
                        pressure := 2 + 8 * ramp * decay + j_pressure j \<rparr>)
             else
               (let f = flow s1 * (9 / 10);
                    w = weight s1 * (999 / 1000);
                    w' = (if w < 5 / 100 then 0 else w)
                in s1 \<lparr> weight := w', flow := f,
                        pressure := pressure s1 * (8 / 10) \<rparr>))
      in s2 \<lparr> boiler_temp := boiler_temp s2 + j_boiler j,
              group_temp := group_temp s2 + j_group j \<rparr>)"

text \<open>
  \<open>get_snapshot()\<close>: \<open>now\<close> is the clock reading inside \<open>_tick\<close>, \<open>now2\<close> the second
  reading taken for the shot time. The updated simulator is returned with the reading.
\<close>

definition sim_get_snapshot :: "sim \<Rightarrow> real \<Rightarrow> real \<Rightarrow> jitter \<Rightarrow> ShotMetrics \<times> sim" where
  "sim_get_snapshot s now now2 j =
     (let s' = sim_tick s now j;
          shot_time = (if shot_active s' then py_trunc ((now2 - shot_start s') * 1000) else 0);
          state = (if shot_active s' then ''BREWING'' else ''IDLE'')
      in (\<lparr> weight_g = max 0 (py_round (weight s') 1),
            flow_g_s = max 0 (py_round (flow s') 2),
            shot_time_ms = shot_time,
            target_weight_g = sim_target_weight_g s',
            pressure_bar = max 0 (py_round (pressure s') 2),
            boiler_temp_c = py_round (boiler_temp s') 1,
            group_temp_c = py_round (group_temp s') 1,
            brew_state = state,
            scale_connected = True,
            notes = ''Simulated'' \<rparr>, s'))"

text \<open>
  Drivers for sequences of calls: \<open>sim_ticks\<close> runs \<open>_tick\<close> once per clock reading
  and jitter draw, \<open>sim_snapshots\<close> runs \<open>get_snapshot\<close> repeatedly and collects each
  returned reading with the state it left. \<open>sim_reachable\<close> are the states that the
  public methods produce from a freshly constructed simulator.
\<close>

fun sim_ticks :: "sim \<Rightarrow> (real \<times> jitter) list \<Rightarrow> sim" where
  "sim_ticks s [] = s"
| "sim_ticks s ((now, j) # rest) = sim_ticks (sim_tick s now j) rest"

fun sim_snapshots :: "sim \<Rightarrow> (real \<times> real \<times> jitter) list \<Rightarrow> (ShotMetrics \<times> sim) list" where
  "sim_snapshots s [] = []"
| "sim_snapshots s ((now, now2, j) # rest) =
     (let r = sim_get_snapshot s now now2 j in r # sim_snapshots (snd r) rest)"

inductive sim_reachable :: "sim \<Rightarrow> bool" where
  init: "sim_reachable (sim_init target now)"
| notify: "sim_reachable s \<Longrightarrow> sim_reachable (sim_notify_arduino s now status)"
| snapshot: "sim_reachable s \<Longrightarrow> sim_reachable (snd (sim_get_snapshot s now now2 j))"

section \<open>JSON values and their coercions\<close>

text \<open>
  Exceptions that reach the handlers of \<open>fetch_status\<close>, by the \<open>except\<close> clause that
  catches them, each with the text that the handler formats: \<open>URLError\<close> carries
  \<open>str(exc.reason)\<close>; \<open>ValueError\<close> (with its subclasses \<open>JSONDecodeError\<close> and
  \<open>UnicodeDecodeError\<close>) and the other classes carry \<open>str(exc)\<close>.
\<close>

datatype exn =
    URLError string
  | ValueError string
  | TypeError string
  | AttributeError string
  | OverflowError string
  | OtherException string









section \<open>ArduinoClient\<close>








text \<open>The three \<open>except\<close> clauses, in the order of the source.\<close>

fun error_text :: "exn \<Rightarrow> string" where
  "error_text (URLError reason) = ''HTTP error: '' @ reason"
| "error_text (ValueError msg) = ''Decode error: '' @ msg"
| "error_text (TypeError msg) = ''Unexpected: '' @ msg"
| "error_text (AttributeError msg) = ''Unexpected: '' @ msg"
| "error_text (OverflowError msg) = ''Unexpected: '' @ msg"
| "error_text (OtherException msg) = ''Unexpected: '' @ msg"
















section \<open>CloudLaMarzoccoSource\<close>

text \<open>
  The attributes \<open>_fallback\<close>, \<open>_latest\<close>, \<open>_ready\<close> and \<open>_stop\<close> of the cloud source,
  and whether \<open>stop()\<close> has scheduled \<open>loop.stop\<close> on the asyncio loop. The fallback is
  the simulator object that the source holds.
\<close>

record cloud =
  fallback :: sim
  latest :: ShotMetrics
  ready :: bool
  cloud_stop_event :: bool
  loop_stop_scheduled :: bool

text \<open>\<open>__init__\<close> with valid key material (with invalid material it raises and no source exists).\<close>

definition cloud_init :: "sim \<Rightarrow> cloud" where
  "cloud_init fb =
     \<lparr> fallback = fb, latest = ShotMetrics_notes ''Waiting for cloud...'', ready = False,
       cloud_stop_event = False, loop_stop_scheduled = False \<rparr>"

text \<open>
  The locals that \<open>_parse_dashboard\<close> computes from the widgets of the dashboard before it
  reads the previous reading: \<open>status\<close>, \<open>shot_time_ms\<close>, \<open>target_weight\<close> and
  \<open>boiler_temp\<close> (as a float; 0.0 when the boiler widget gives none).
\<close>

record dashboard_fields =
  df_status :: string
  df_shot_time_ms :: int
  df_target_weight :: real
  df_boiler_temp :: real

text \<open>
  \<open>_parse_dashboard(machine)\<close> on the previous reading \<open>self._latest\<close>: \<open>None\<close> stands for
  \<open>machine.dashboard is None\<close>. \<open>x or y\<close> and \<open>x if x else y\<close> on a float take \<open>y\<close> when
  \<open>x\<close> is 0.0.
\<close>

definition cloud_parse_dashboard :: "ShotMetrics \<Rightarrow> dashboard_fields option \<Rightarrow> ShotMetrics" where
  "cloud_parse_dashboard previous dash =
     (case dash of
        None \<Rightarrow> ShotMetrics_notes ''No dashboard data yet''
      | Some f \<Rightarrow>
          \<lparr> weight_g = weight_g previous,
            flow_g_s = flow_g_s previous,
            shot_time_ms = df_shot_time_ms f,
            target_weight_g =
              (if df_target_weight f \<noteq> 0 then df_target_weight f else target_weight_g previous),
            pressure_bar = pressure_bar previous,
            boiler_temp_c =
              (if df_boiler_temp f \<noteq> 0 then df_boiler_temp f else boiler_temp_c previous),
            group_temp_c = group_temp_c previous,
            brew_state = df_status f,
            scale_connected = scale_connected previous,
            notes = ''Cloud dashboard'' \<rparr>)"

text \<open>
  One pass of the \<open>while\<close> loop of \<open>_loop_main\<close>: \<open>get_dashboard\<close> or the parsing raised
  (with the text of the exception), or the dashboard was fetched and parsed.
\<close>

datatype poll = PollRaised string | Polled "dashboard_fields option"

definition cloud_poll :: "cloud \<Rightarrow> poll \<Rightarrow> cloud" where
  "cloud_poll c p =
     (case p of
        Polled dash \<Rightarrow> c \<lparr> latest := cloud_parse_dashboard (latest c) dash \<rparr>
      | PollRaised msg \<Rightarrow> c \<lparr> latest := ShotMetrics_notes (''Cloud error: '' @ msg) \<rparr>)"

text \<open>The loop runs a pass while the stop event is not set.\<close>

fun cloud_poll_loop :: "cloud \<Rightarrow> poll list \<Rightarrow> cloud" where
  "cloud_poll_loop c [] = c"
| "cloud_poll_loop c (p # ps) =
     (if cloud_stop_event c then c else cloud_poll_loop (cloud_poll c p) ps)"

text \<open>
  \<open>_loop_main\<close>: the import, registration and token steps either succeed or raise (with
  the text of the exception); the polls are the passes of the loop so far.
\<close>

datatype startup = StartupOk | StartupFailed string

definition cloud_loop_main :: "cloud \<Rightarrow> startup \<Rightarrow> poll list \<Rightarrow> cloud" where
  "cloud_loop_main c s polls =
     (case s of
        StartupOk \<Rightarrow> cloud_poll_loop (c \<lparr> ready := True \<rparr>) polls
      | StartupFailed msg \<Rightarrow>
          c \<lparr> ready := True, latest := ShotMetrics_notes (''Cloud disabled: '' @ msg) \<rparr>)"

text \<open>\<open>stop()\<close>; \<open>running\<close> is \<open>self._loop.is_running()\<close>.\<close>

definition cloud_stop :: "cloud \<Rightarrow> bool \<Rightarrow> cloud" where
  "cloud_stop c running =
     (let c' = c \<lparr> cloud_stop_event := True \<rparr>
      in if running then c' \<lparr> loop_stop_scheduled := True \<rparr> else c')"

text \<open>\<open>get_snapshot()\<close>; the clock readings and the jitter are those of the fallback.\<close>

definition cloud_get_snapshot :: "cloud \<Rightarrow> real \<Rightarrow> real \<Rightarrow> jitter \<Rightarrow> ShotMetrics \<times> cloud" where
  "cloud_get_snapshot c now now2 j =
     (if \<not> ready c then (ShotMetrics_notes ''Connecting to cloud...'', c)
      else if prefix ''Cloud disabled'' (notes (latest c)) then
        (let r = sim_get_snapshot (fallback c) now now2 j
         in (fst r, c \<lparr> fallback := snd r \<rparr>))
      else (latest c, c))"

text \<open>\<open>notify_arduino(status)\<close>.\<close>

definition cloud_notify_arduino :: "cloud \<Rightarrow> real \<Rightarrow> ArduinoStatus \<Rightarrow> cloud" where
  "cloud_notify_arduino c now status =
     c \<lparr> fallback := sim_notify_arduino (fallback c) now status \<rparr>"

text \<open>The states of a cloud source that its constructor, its loop and its methods produce.\<close>

inductive cloud_reachable :: "cloud \<Rightarrow> bool" where
  init: "cloud_reachable (cloud_init fb)"
| loop_main: "cloud_reachable c \<Longrightarrow> cloud_reachable (cloud_loop_main c s polls)"
| poll: "cloud_reachable c \<Longrightarrow> cloud_reachable (cloud_poll c p)"
| stop: "cloud_reachable c \<Longrightarrow> cloud_reachable (cloud_stop c running)"
| notify: "cloud_reachable c \<Longrightarrow> cloud_reachable (cloud_notify_arduino c now status)"
| snapshot: "cloud_reachable c \<Longrightarrow> cloud_reachable (snd (cloud_get_snapshot c now now2 j))"

text \<open>The fields of a reading that the cloud feed cannot provide.\<close>

definition unprovided :: "ShotMetrics \<Rightarrow> real \<times> real \<times> real \<times> real \<times> bool" where
  "unprovided m = (weight_g m, flow_g_s m, pressure_bar m, group_temp_c m, scale_connected m)"

section \<open>DataCoordinator\<close>

record CombinedState =
  timestamp :: real
  arduino :: ArduinoStatus
  shot :: ShotMetrics

text \<open>The active telemetry source \<open>lm_source\<close>: the simulator, or a cloud source that holds it.\<close>

datatype source = SimSource sim | CloudSource cloud



text \<open>The attributes \<open>lm_source\<close>, \<open>_state\<close> and \<open>_stop\<close> of the coordinator.\<close>

record coordinator =
  lm_source :: source
  state :: CombinedState
  coordinator_stop_event :: bool






text \<open>\<open>latest()\<close>.\<close>

definition coordinator_latest :: "coordinator \<Rightarrow> CombinedState" where
  "coordinator_latest co =
     \<lparr> timestamp = timestamp (state co), arduino = arduino (state co), shot = shot (state co) \<rparr>"

section \<open>Properties of the simulator\<close>

lemma round_half_even_lower: "\<lfloor>y\<rfloor> \<le> round_half_even y"
  by (simp add: round_half_even_def Let_def)

lemma round_half_even_upper: "round_half_even y \<le> \<lfloor>y\<rfloor> + 1"
  by (simp add: round_half_even_def Let_def)

lemma round_half_even_mono:
  assumes "x \<le> y"
  shows "round_half_even x \<le> round_half_even y"
proof (cases "\<lfloor>x\<rfloor> = \<lfloor>y\<rfloor>")
  case True
  with assms show ?thesis
    by (auto simp add: round_half_even_def Let_def)
next
  case False
  from assms have "\<lfloor>x\<rfloor> \<le> \<lfloor>y\<rfloor>" by (rule floor_mono)
  with False have "\<lfloor>x\<rfloor> + 1 \<le> \<lfloor>y\<rfloor>" by simp
  with round_half_even_upper [of x] round_half_even_lower [of y] show ?thesis
    by linarith
qed

lemma py_round_mono:
  assumes "x \<le> y"
  shows "py_round x n \<le> py_round y n"
proof -
  have "x * 10 ^ n \<le> y * 10 ^ n" using assms by (simp add: mult_right_mono)
  then have "round_half_even (x * 10 ^ n) \<le> round_half_even (y * 10 ^ n)"
    by (rule round_half_even_mono)
  then show ?thesis by (simp add: py_round_def divide_right_mono)
qed

lemma py_round_small:
  assumes "0 \<le> x" and "x < 5 / 100"
  shows "py_round x 1 = 0"
proof -
  have "0 \<le> x * 10" and "x * 10 < 1 / 2" using assms by simp_all
  then have f: "\<lfloor>x * 10\<rfloor> = 0" by (simp add: floor_eq_iff)
  with \<open>x * 10 < 1 / 2\<close> have "round_half_even (x * 10) = 0"
    by (simp add: round_half_even_def Let_def)
  then show ?thesis by (simp add: py_round_def)
qed

lemma sim_get_snapshot_state: "snd (sim_get_snapshot s now now2 j) = sim_tick s now j"
  by (simp add: sim_get_snapshot_def Let_def)

lemma sim_get_snapshot_weight_g:
  "weight_g (fst (sim_get_snapshot s now now2 j)) = max 0 (py_round (weight (sim_tick s now j)) 1)"
  by (simp add: sim_get_snapshot_def Let_def)

lemma sim_tick_shot_active: "shot_active (sim_tick s now j) = shot_active s"
  by (simp add: sim_tick_def Let_def)

lemma sim_tick_active_weight:
  assumes "shot_active s"
  shows "weight s \<le> weight (sim_tick s now j)"
proof -
  have "0 \<le> max 0 (f::real) * max (1 / 1000) d" for f d
    by (rule mult_nonneg_nonneg) simp_all
  with assms show ?thesis by (simp add: sim_tick_def Let_def)
qed

lemma sim_tick_idle:
  assumes "\<not> shot_active s"
  shows "flow (sim_tick s now j) = flow s * (9 / 10)"
    and "pressure (sim_tick s now j) = pressure s * (8 / 10)"
    and "weight (sim_tick s now j) =
           (if weight s * (999 / 1000) < 5 / 100 then 0 else weight s * (999 / 1000))"
  using assms by (simp_all add: sim_tick_def Let_def)

lemma sim_tick_weight_nonneg:
  assumes "0 \<le> weight s"
  shows "0 \<le> weight (sim_tick s now j)"
proof (cases "shot_active s")
  case True
  from sim_tick_active_weight [OF True, of now j] assms show ?thesis by linarith
next
  case False
  with assms show ?thesis by (simp add: sim_tick_idle)
qed

lemma sim_reachable_weight_nonneg: "sim_reachable s \<Longrightarrow> 0 \<le> weight s"
proof (induction rule: sim_reachable.induct)
  case (init target now)
  show ?case by (simp add: sim_init_def)
next
  case (notify s now status)
  then show ?case by (simp add: sim_notify_arduino_def)
next
  case (snapshot s now now2 j)
  then show ?case by (simp add: sim_get_snapshot_state sim_tick_weight_nonneg)
qed

lemma sim_snapshots_active:
  assumes "shot_active s" and "r \<in> set (sim_snapshots s ins)"
  shows "shot_active (snd r) \<and> weight s \<le> weight (snd r)
         \<and> max 0 (py_round (weight s) 1) \<le> weight_g (fst r)"
  using assms
proof (induction s ins rule: sim_snapshots.induct)
  case (1 s)
  then show ?case by simp
next
  case (2 s now now2 j rest)
  let ?s' = "sim_tick s now j"
  have act: "shot_active ?s'" using 2 by (simp add: sim_tick_shot_active)
  have w: "weight s \<le> weight ?s'" using 2 by (simp add: sim_tick_active_weight)
  then have g: "max 0 (py_round (weight s) 1) \<le> max 0 (py_round (weight ?s') 1)"
    using py_round_mono [OF w, of 1] by linarith
  from "2.prems"(2) consider "r = sim_get_snapshot s now now2 j"
    | "r \<in> set (sim_snapshots ?s' rest)"
    by (auto simp add: Let_def sim_get_snapshot_state)
  then show ?case
  proof cases
    case 1
    with act w g show ?thesis
      by (simp add: sim_get_snapshot_state sim_get_snapshot_weight_g)
  next
    case 2
    have "shot_active (snd r) \<and> weight ?s' \<le> weight (snd r)
          \<and> max 0 (py_round (weight ?s') 1) \<le> weight_g (fst r)"
      using "2.IH" [OF refl] act 2 by (simp add: sim_get_snapshot_state)
    with w g show ?thesis by linarith
  qed
qed

text \<open>
  C5: while the shot is active, over any sequence of \<open>get_snapshot\<close> calls (each one
  tick, with any clock readings and any jitter) the accumulated weight and the reported
  \<open>weight_g\<close> never decrease, and never fall below their values before the sequence.
\<close>

theorem sim_weight_monotone_while_active:
  assumes "shot_active s"
  shows "sorted (map (\<lambda>r. weight (snd r)) (sim_snapshots s ins))
         \<and> sorted (map (\<lambda>r. weight_g (fst r)) (sim_snapshots s ins))
         \<and> (\<forall>r \<in> set (sim_snapshots s ins).
               weight s \<le> weight (snd r) \<and> max 0 (py_round (weight s) 1) \<le> weight_g (fst r))"
  using assms
proof (induction s ins rule: sim_snapshots.induct)
  case (1 s)
  then show ?case by simp
next
  case (2 s now now2 j rest)
  let ?s' = "sim_tick s now j"
  have act: "shot_active ?s'" using 2 by (simp add: sim_tick_shot_active)
  have ih: "sorted (map (\<lambda>r. weight (snd r)) (sim_snapshots ?s' rest))
         \<and> sorted (map (\<lambda>r. weight_g (fst r)) (sim_snapshots ?s' rest))"
    using "2.IH" [OF refl] act by (simp add: sim_get_snapshot_state)
  have later: "\<forall>r \<in> set (sim_snapshots ?s' rest).
       weight ?s' \<le> weight (snd r) \<and> max 0 (py_round (weight ?s') 1) \<le> weight_g (fst r)"
    using sim_snapshots_active [OF act] by blast
  have all: "\<forall>r \<in> set (sim_snapshots s ((now, now2, j) # rest)).
       weight s \<le> weight (snd r) \<and> max 0 (py_round (weight s) 1) \<le> weight_g (fst r)"
    using sim_snapshots_active [OF "2.prems"] by blast
  from ih later all show ?case
    by (simp add: Let_def sim_get_snapshot_state sim_get_snapshot_weight_g)
qed


lemma sim_ticks_idle:
  assumes "\<not> shot_active s" and "0 \<le> weight s"
  shows "\<not> shot_active (sim_ticks s ins)
         \<and> flow (sim_ticks s ins) = flow s * (9 / 10) ^ length ins
         \<and> pressure (sim_ticks s ins) = pressure s * (8 / 10) ^ length ins
         \<and> 0 \<le> weight (sim_ticks s ins)
         \<and> weight (sim_ticks s ins) \<le> weight s"
  using assms
proof (induction s ins rule: sim_ticks.induct)
  case (1 s)
  then show ?case by simp
next
  case (2 s now j rest)
  let ?s' = "sim_tick s now j"
  have idle: "\<not> shot_active ?s'" using 2 by (simp add: sim_tick_shot_active)
  have nonneg: "0 \<le> weight ?s'" using 2 by (simp add: sim_tick_weight_nonneg)
  have le: "weight ?s' \<le> weight s" using 2 by (simp add: sim_tick_idle)
  from "2.IH" [OF idle nonneg] le "2.prems" show ?case
    by (simp add: sim_tick_idle)
qed

lemma sim_ticks_idle_flow_pressure:
  assumes "\<not> shot_active u"
  shows "\<not> shot_active (sim_ticks u ins)
         \<and> flow (sim_ticks u ins) = flow u * (9 / 10) ^ length ins
         \<and> pressure (sim_ticks u ins) = pressure u * (8 / 10) ^ length ins"
  using assms
proof (induction u ins rule: sim_ticks.induct)
  case (1 s)
  then show ?case by simp
next
  case (2 s now j rest)
  have idle: "\<not> shot_active (sim_tick s now j)" using 2 by (simp add: sim_tick_shot_active)
  from "2.IH" [OF idle] "2.prems" show ?case
    by (simp add: sim_tick_idle)
qed

text \<open>
  C6: after \<open>notify_arduino\<close> with paddle 0 ends an active shot, flow is 0 and stays 0,
  the weight never increases (each idle tick replaces it by 0.999 of itself, or by exactly
  0 when that falls below 0.05) and the pressure is multiplied by 0.8 per tick. In any
  idle state an idle tick multiplies flow by 0.9 and pressure by 0.8 and applies the same
  weight rule, so n ticks give the factors 0.9^n and 0.8^n.
\<close>

theorem sim_idle_decay_after_paddle_open:
  assumes "sim_reachable s" and "shot_active s" and "paddle status = 0"
  shows "flow (sim_notify_arduino s t status) = 0
    \<and> weight (sim_notify_arduino s t status) = weight s
    \<and> pressure (sim_notify_arduino s t status) = pressure s
    \<and> \<not> shot_active (sim_ticks (sim_notify_arduino s t status) ins)
    \<and> flow (sim_ticks (sim_notify_arduino s t status) ins) = 0
    \<and> pressure (sim_ticks (sim_notify_arduino s t status) ins)
        = pressure s * (8 / 10) ^ length ins
    \<and> 0 \<le> weight (sim_ticks (sim_notify_arduino s t status) ins)
    \<and> weight (sim_ticks (sim_notify_arduino s t status) ins) \<le> weight s
    \<and> weight (sim_tick (sim_ticks (sim_notify_arduino s t status) ins) now j)
        = (if weight (sim_ticks (sim_notify_arduino s t status) ins) * (999 / 1000) < 5 / 100
           then 0
           else weight (sim_ticks (sim_notify_arduino s t status) ins) * (999 / 1000))
    \<and> weight (sim_tick (sim_ticks (sim_notify_arduino s t status) ins) now j)
        \<le> weight (sim_ticks (sim_notify_arduino s t status) ins)
    \<and> pressure (sim_tick (sim_ticks (sim_notify_arduino s t status) ins) now j)
        = pressure (sim_ticks (sim_notify_arduino s t status) ins) * (8 / 10)
    \<and> (\<not> shot_active u \<longrightarrow>
          flow (sim_tick u now j) = flow u * (9 / 10)
        \<and> pressure (sim_tick u now j) = pressure u * (8 / 10)
        \<and> weight (sim_tick u now j)
            = (if weight u * (999 / 1000) < 5 / 100 then 0 else weight u * (999 / 1000))
        \<and> flow (sim_ticks u ins) = flow u * (9 / 10) ^ length ins
        \<and> pressure (sim_ticks u ins) = pressure u * (8 / 10) ^ length ins
        \<and> (0 \<le> weight u \<longrightarrow>
              weight (sim_tick u now j) \<le> weight u \<and> weight (sim_ticks u ins) \<le> weight u))"
proof -
  let ?s0 = "sim_notify_arduino s t status"
  let ?sn = "sim_ticks ?s0 ins"
  have s0: "\<not> shot_active ?s0" "flow ?s0 = 0" "weight ?s0 = weight s" "pressure ?s0 = pressure s"
    using assms(2,3) by (simp_all add: sim_notify_arduino_def)
  have w0: "0 \<le> weight ?s0"
    using sim_reachable_weight_nonneg [OF assms(1)] s0(3) by simp
  note run = sim_ticks_idle [OF s0(1) w0, of ins]
  from run have idle: "\<not> shot_active ?sn" and nonneg: "0 \<le> weight ?sn" by simp_all
  have step: "weight (sim_tick ?sn now j) \<le> weight ?sn"
    using nonneg by (simp add: sim_tick_idle [OF idle])
  have first: "flow ?s0 = 0 \<and> weight ?s0 = weight s \<and> pressure ?s0 = pressure s
    \<and> \<not> shot_active ?sn \<and> flow ?sn = 0 \<and> pressure ?sn = pressure s * (8 / 10) ^ length ins
    \<and> 0 \<le> weight ?sn \<and> weight ?sn \<le> weight s
    \<and> weight (sim_tick ?sn now j)
        = (if weight ?sn * (999 / 1000) < 5 / 100 then 0 else weight ?sn * (999 / 1000))
    \<and> weight (sim_tick ?sn now j) \<le> weight ?sn
    \<and> pressure (sim_tick ?sn now j) = pressure ?sn * (8 / 10)"
    using run step s0 by (simp add: sim_tick_idle [OF idle])
  have general: "flow (sim_tick u now j) = flow u * (9 / 10)
        \<and> pressure (sim_tick u now j) = pressure u * (8 / 10)
        \<and> weight (sim_tick u now j)
            = (if weight u * (999 / 1000) < 5 / 100 then 0 else weight u * (999 / 1000))
        \<and> flow (sim_ticks u ins) = flow u * (9 / 10) ^ length ins
        \<and> pressure (sim_ticks u ins) = pressure u * (8 / 10) ^ length ins
        \<and> (0 \<le> weight u \<longrightarrow>
              weight (sim_tick u now j) \<le> weight u \<and> weight (sim_ticks u ins) \<le> weight u)"
    if u: "\<not> shot_active u"
  proof -
    have a: "weight (sim_tick u now j) \<le> weight u \<and> weight (sim_ticks u ins) \<le> weight u"
      if "0 \<le> weight u"
      using that sim_ticks_idle [OF u that, of ins] by (simp add: sim_tick_idle [OF u])
    from a sim_ticks_idle_flow_pressure [OF u, of ins] show ?thesis
      by (simp add: sim_tick_idle [OF u])
  qed
  from first general show ?thesis by blast
qed

text \<open>
  C4 (amended): after \<open>notify_arduino\<close> with paddle 1 on an idle simulator, the next
  \<open>get_snapshot\<close> reports BREWING, a shot time of the whole milliseconds since the
  notify (0 below one millisecond), and as weight the first tick's flow integrated over
  the time since the previous tick, rounded to 0.1 g: 0 when that product is below 0.05 g.
\<close>

theorem sim_shot_start_snapshot:
  assumes "\<not> shot_active s" and "paddle status = 1" and "t0 \<le> t1" and "t1 \<le> t2"
  shows "brew_state (fst (sim_get_snapshot (sim_notify_arduino s t0 status) t1 t2 j)) = ''BREWING''
    \<and> shot_time_ms (fst (sim_get_snapshot (sim_notify_arduino s t0 status) t1 t2 j))
        = \<lfloor>(t2 - t0) * 1000\<rfloor>
    \<and> 0 \<le> shot_time_ms (fst (sim_get_snapshot (sim_notify_arduino s t0 status) t1 t2 j))
    \<and> (t2 - t0 < 1 / 1000 \<longrightarrow>
         shot_time_ms (fst (sim_get_snapshot (sim_notify_arduino s t0 status) t1 t2 j)) = 0)
    \<and> weight_g (fst (sim_get_snapshot (sim_notify_arduino s t0 status) t1 t2 j))
        = max 0 (py_round (max 0 (26 / 10 * min 1 ((t1 - t0) / 4) + j_flow j)
                           * max (1 / 1000) (t1 - last_update s)) 1)
    \<and> (max 0 (26 / 10 * min 1 ((t1 - t0) / 4) + j_flow j)
          * max (1 / 1000) (t1 - last_update s) < 5 / 100 \<longrightarrow>
         weight_g (fst (sim_get_snapshot (sim_notify_arduino s t0 status) t1 t2 j)) = 0)"
proof -
  let ?s0 = "sim_notify_arduino s t0 status"
  let ?m = "fst (sim_get_snapshot ?s0 t1 t2 j)"
  let ?F = "max 0 (26 / 10 * min 1 ((t1 - t0) / 4) + j_flow j)"
  let ?dt = "max (1 / 1000) (t1 - last_update s)"
  have s0: "shot_active ?s0" "shot_start ?s0 = t0" "weight ?s0 = 0" "last_update ?s0 = last_update s"
    using assms(1,2) by (simp_all add: sim_notify_arduino_def)
  have tick: "shot_active (sim_tick ?s0 t1 j)" "shot_start (sim_tick ?s0 t1 j) = t0"
    "weight (sim_tick ?s0 t1 j) = ?F * ?dt"
    using s0 by (simp_all add: sim_tick_def Let_def)
  have el: "0 \<le> (t2 - t0) * 1000" using assms(3,4) by simp
  have state: "brew_state ?m = ''BREWING''"
    using tick(1) by (simp add: sim_get_snapshot_def Let_def)
  have time: "shot_time_ms ?m = \<lfloor>(t2 - t0) * 1000\<rfloor>"
    using tick(1,2) el by (simp add: sim_get_snapshot_def Let_def py_trunc_def)
  have time0: "0 \<le> shot_time_ms ?m" using time el by simp
  have time1: "shot_time_ms ?m = 0" if "t2 - t0 < 1 / 1000"
  proof -
    have "(t2 - t0) * 1000 < 1" using that by simp
    with el have "\<lfloor>(t2 - t0) * 1000\<rfloor> = 0" by (simp add: floor_eq_iff)
    with time show ?thesis by simp
  qed
  have wg: "weight_g ?m = max 0 (py_round (?F * ?dt) 1)"
    using tick(3) by (simp add: sim_get_snapshot_weight_g)
  have prod: "0 \<le> ?F * ?dt" by (rule mult_nonneg_nonneg) simp_all
  have wg0: "weight_g ?m = 0" if "?F * ?dt < 5 / 100"
    using wg py_round_small [OF prod that] by simp
  from state time time0 time1 wg wg0 show ?thesis by blast
qed

text \<open>
  C4 as stated fails: with the previous tick one second back and a flow jitter of
  0.08 g/s, the reading taken one millisecond after the shot start has weight 0.1 g.
\<close>

theorem sim_shot_start_weight_counterexample:
  "\<not> shot_active (sim_init 36 0)
   \<and> paddle (ArduinoStatus_default \<lparr> paddle := 1 \<rparr>) = 1
   \<and> jitter_bounded \<lparr> j_flow = 8 / 100, j_pressure = 0, j_boiler = 0, j_group = 0 \<rparr>
   \<and> brew_state (fst (sim_get_snapshot
        (sim_notify_arduino (sim_init 36 0) 1 (ArduinoStatus_default \<lparr> paddle := 1 \<rparr>))
        (1001 / 1000) (1001 / 1000)
        \<lparr> j_flow = 8 / 100, j_pressure = 0, j_boiler = 0, j_group = 0 \<rparr>)) = ''BREWING''
   \<and> shot_time_ms (fst (sim_get_snapshot
        (sim_notify_arduino (sim_init 36 0) 1 (ArduinoStatus_default \<lparr> paddle := 1 \<rparr>))
        (1001 / 1000) (1001 / 1000)
        \<lparr> j_flow = 8 / 100, j_pressure = 0, j_boiler = 0, j_group = 0 \<rparr>)) = 1
   \<and> weight_g (fst (sim_get_snapshot
        (sim_notify_arduino (sim_init 36 0) 1 (ArduinoStatus_default \<lparr> paddle := 1 \<rparr>))
        (1001 / 1000) (1001 / 1000)
        \<lparr> j_flow = 8 / 100, j_pressure = 0, j_boiler = 0, j_group = 0 \<rparr>)) = 1 / 10
   \<and> weight_g (fst (sim_get_snapshot
        (sim_notify_arduino (sim_init 36 0) 1 (ArduinoStatus_default \<lparr> paddle := 1 \<rparr>))
        (1001 / 1000) (1001 / 1000)
        \<lparr> j_flow = 8 / 100, j_pressure = 0, j_boiler = 0, j_group = 0 \<rparr>)) \<noteq> 0"
  by (simp add: sim_get_snapshot_def sim_tick_def sim_notify_arduino_def sim_init_def
      ArduinoStatus_default_def py_round_def round_half_even_def py_trunc_def jitter_bounded_def
      Let_def)

theorem sim_shot_start_snapshot_witness:
  "\<not> shot_active (sim_init 36 0)
   \<and> paddle (ArduinoStatus_default \<lparr> paddle := 1 \<rparr>) = 1
   \<and> (1 / 5 :: real) \<le> 1 / 5
   \<and> brew_state (fst (sim_get_snapshot
        (sim_notify_arduino (sim_init 36 0) (1 / 5) (ArduinoStatus_default \<lparr> paddle := 1 \<rparr>))
        (1 / 5) (1 / 5) \<lparr> j_flow = 5 / 100, j_pressure = 0, j_boiler = 0, j_group = 0 \<rparr>))
       = ''BREWING''
   \<and> shot_time_ms (fst (sim_get_snapshot
        (sim_notify_arduino (sim_init 36 0) (1 / 5) (ArduinoStatus_default \<lparr> paddle := 1 \<rparr>))
        (1 / 5) (1 / 5) \<lparr> j_flow = 5 / 100, j_pressure = 0, j_boiler = 0, j_group = 0 \<rparr>)) = 0
   \<and> weight_g (fst (sim_get_snapshot
        (sim_notify_arduino (sim_init 36 0) (1 / 5) (ArduinoStatus_default \<lparr> paddle := 1 \<rparr>))
        (1 / 5) (1 / 5) \<lparr> j_flow = 5 / 100, j_pressure = 0, j_boiler = 0, j_group = 0 \<rparr>)) = 0"
proof -
  have h1: "\<not> shot_active (sim_init 36 0)" by (simp add: sim_init_def)
  have h2: "paddle (ArduinoStatus_default \<lparr> paddle := 1 \<rparr>) = 1" by simp
  have h3: "(1 / 5 :: real) \<le> 1 / 5" by simp
  have small: "max 0 (26 / 10 * min 1 ((1 / 5 - 1 / 5) / 4)
        + j_flow \<lparr> j_flow = 5 / 100, j_pressure = 0, j_boiler = 0, j_group = 0 \<rparr>)
      * max (1 / 1000) (1 / 5 - last_update (sim_init 36 0)) < (5 / 100 :: real)"
    by (simp add: sim_init_def)
  from sim_shot_start_snapshot [OF h1 h2 h3 h3,
      of "\<lparr> j_flow = 5 / 100, j_pressure = 0, j_boiler = 0, j_group = 0 \<rparr>"] small h1 h2
  show ?thesis by simp
qed

theorem sim_weight_monotone_while_active_witness:
  "shot_active (sim_notify_arduino (sim_init 36 0) 1 (ArduinoStatus_default \<lparr> paddle := 1 \<rparr>))
   \<and> sorted (map (\<lambda>r. weight_g (fst r))
        (sim_snapshots (sim_notify_arduino (sim_init 36 0) 1 (ArduinoStatus_default \<lparr> paddle := 1 \<rparr>))
           [(2, 2, \<lparr> j_flow = 0, j_pressure = 0, j_boiler = 0, j_group = 0 \<rparr>),
            (3, 3, \<lparr> j_flow = - (1 / 10), j_pressure = 0, j_boiler = 0, j_group = 0 \<rparr>)]))
   \<and> map (\<lambda>r. weight (snd r))
        (sim_snapshots (sim_notify_arduino (sim_init 36 0) 1 (ArduinoStatus_default \<lparr> paddle := 1 \<rparr>))
           [(2, 2, \<lparr> j_flow = 0, j_pressure = 0, j_boiler = 0, j_group = 0 \<rparr>),
            (3, 3, \<lparr> j_flow = - (1 / 10), j_pressure = 0, j_boiler = 0, j_group = 0 \<rparr>)])
       = [13 / 10, 13 / 10 + (13 / 10 * (1 - (13 / 10) / (396 / 10)) - 1 / 10)]"
proof -
  have h: "shot_active (sim_notify_arduino (sim_init 36 0) 1 (ArduinoStatus_default \<lparr> paddle := 1 \<rparr>))"
    by (simp add: sim_notify_arduino_def sim_init_def ArduinoStatus_default_def)
  have run: "map (\<lambda>r. weight (snd r))
        (sim_snapshots (sim_notify_arduino (sim_init 36 0) 1 (ArduinoStatus_default \<lparr> paddle := 1 \<rparr>))
           [(2, 2, \<lparr> j_flow = 0, j_pressure = 0, j_boiler = 0, j_group = 0 \<rparr>),
            (3, 3, \<lparr> j_flow = - (1 / 10), j_pressure = 0, j_boiler = 0, j_group = 0 \<rparr>)])
       = [13 / 10, 13 / 10 + (13 / 10 * (1 - (13 / 10) / (396 / 10)) - 1 / 10)]"
    by (simp add: sim_get_snapshot_state sim_tick_def sim_notify_arduino_def sim_init_def
        ArduinoStatus_default_def Let_def)
  from sim_weight_monotone_while_active [OF h] h run show ?thesis by blast
qed

theorem sim_idle_decay_after_paddle_open_witness:
  "sim_reachable (sim_tick
      (sim_notify_arduino (sim_init 36 0) 1 (ArduinoStatus_default \<lparr> paddle := 1 \<rparr>))
      2 \<lparr> j_flow = 0, j_pressure = 0, j_boiler = 0, j_group = 0 \<rparr>)
   \<and> shot_active (sim_tick
      (sim_notify_arduino (sim_init 36 0) 1 (ArduinoStatus_default \<lparr> paddle := 1 \<rparr>))
      2 \<lparr> j_flow = 0, j_pressure = 0, j_boiler = 0, j_group = 0 \<rparr>)
   \<and> paddle ArduinoStatus_default = 0
   \<and> weight (sim_tick
      (sim_notify_arduino (sim_init 36 0) 1 (ArduinoStatus_default \<lparr> paddle := 1 \<rparr>))
      2 \<lparr> j_flow = 0, j_pressure = 0, j_boiler = 0, j_group = 0 \<rparr>) = 13 / 10
   \<and> pressure (sim_tick
      (sim_notify_arduino (sim_init 36 0) 1 (ArduinoStatus_default \<lparr> paddle := 1 \<rparr>))
      2 \<lparr> j_flow = 0, j_pressure = 0, j_boiler = 0, j_group = 0 \<rparr>) = 4
   \<and> flow (sim_tick
      (sim_notify_arduino (sim_init 36 0) 1 (ArduinoStatus_default \<lparr> paddle := 1 \<rparr>))
      2 \<lparr> j_flow = 0, j_pressure = 0, j_boiler = 0, j_group = 0 \<rparr>) = 65 / 100
   \<and> flow (sim_notify_arduino (sim_tick
        (sim_notify_arduino (sim_init 36 0) 1 (ArduinoStatus_default \<lparr> paddle := 1 \<rparr>))
        2 \<lparr> j_flow = 0, j_pressure = 0, j_boiler = 0, j_group = 0 \<rparr>) 3 ArduinoStatus_default) = 0
   \<and> pressure (sim_ticks (sim_notify_arduino (sim_tick
        (sim_notify_arduino (sim_init 36 0) 1 (ArduinoStatus_default \<lparr> paddle := 1 \<rparr>))
        2 \<lparr> j_flow = 0, j_pressure = 0, j_boiler = 0, j_group = 0 \<rparr>) 3 ArduinoStatus_default)
        [(4, \<lparr> j_flow = 0, j_pressure = 0, j_boiler = 0, j_group = 0 \<rparr>),
         (5, \<lparr> j_flow = 0, j_pressure = 0, j_boiler = 0, j_group = 0 \<rparr>)]) = 64 / 25
   \<and> weight (sim_ticks (sim_notify_arduino (sim_tick
        (sim_notify_arduino (sim_init 36 0) 1 (ArduinoStatus_default \<lparr> paddle := 1 \<rparr>))
        2 \<lparr> j_flow = 0, j_pressure = 0, j_boiler = 0, j_group = 0 \<rparr>) 3 ArduinoStatus_default)
        [(4, \<lparr> j_flow = 0, j_pressure = 0, j_boiler = 0, j_group = 0 \<rparr>),
         (5, \<lparr> j_flow = 0, j_pressure = 0, j_boiler = 0, j_group = 0 \<rparr>)])
      = 13 / 10 * (999 / 1000) * (999 / 1000)
   \<and> \<not> shot_active (sim_init 36 0 \<lparr> weight := 4 / 100, flow := 1, pressure := 5 \<rparr>)
   \<and> flow (sim_tick (sim_init 36 0 \<lparr> weight := 4 / 100, flow := 1, pressure := 5 \<rparr>) 6
        \<lparr> j_flow = 0, j_pressure = 0, j_boiler = 0, j_group = 0 \<rparr>) = 9 / 10
   \<and> pressure (sim_tick (sim_init 36 0 \<lparr> weight := 4 / 100, flow := 1, pressure := 5 \<rparr>) 6
        \<lparr> j_flow = 0, j_pressure = 0, j_boiler = 0, j_group = 0 \<rparr>) = 4
   \<and> weight (sim_tick (sim_init 36 0 \<lparr> weight := 4 / 100, flow := 1, pressure := 5 \<rparr>) 6
        \<lparr> j_flow = 0, j_pressure = 0, j_boiler = 0, j_group = 0 \<rparr>) = 0"
proof -
  let ?j = "\<lparr> j_flow = 0, j_pressure = 0, j_boiler = 0, j_group = 0 \<rparr>"
  let ?s = "sim_tick
      (sim_notify_arduino (sim_init 36 0) 1 (ArduinoStatus_default \<lparr> paddle := 1 \<rparr>)) 2 ?j"
  let ?u = "sim_init 36 0 \<lparr> weight := 4 / 100, flow := 1, pressure := 5 \<rparr>"
  have "sim_reachable (snd (sim_get_snapshot
      (sim_notify_arduino (sim_init 36 0) 1 (ArduinoStatus_default \<lparr> paddle := 1 \<rparr>)) 2 2 ?j))"
    by (rule sim_reachable.snapshot [OF sim_reachable.notify [OF sim_reachable.init]])
  then have h1: "sim_reachable ?s" by (simp only: sim_get_snapshot_state)
  have vals: "shot_active ?s" "weight ?s = 13 / 10" "pressure ?s = 4" "flow ?s = 65 / 100"
    by (simp_all add: sim_tick_def sim_notify_arduino_def sim_init_def ArduinoStatus_default_def
        Let_def)
  have h3: "paddle ArduinoStatus_default = 0" by (simp add: ArduinoStatus_default_def)
  have u: "\<not> shot_active ?u" "flow ?u = 1" "pressure ?u = 5" "weight ?u = 4 / 100"
    by (simp_all add: sim_init_def)
  have idle0: "\<not> shot_active (sim_notify_arduino ?s 3 ArduinoStatus_default)"
    and weight0: "weight (sim_notify_arduino ?s 3 ArduinoStatus_default) = 13 / 10"
    using vals(1,2) h3 by (simp_all add: sim_notify_arduino_def)
  have w2: "weight (sim_ticks (sim_notify_arduino ?s 3 ArduinoStatus_default) [(4, ?j), (5, ?j)])
      = 13 / 10 * (999 / 1000) * (999 / 1000)"
    using idle0 weight0 by (simp add: sim_tick_idle sim_tick_shot_active)
  let ?idle = "sim_notify_arduino ?s 3 ArduinoStatus_default"
  note decay = sim_idle_decay_after_paddle_open [OF h1 vals(1) h3, of 3 "[(4, ?j), (5, ?j)]" 6 ?j ?u]
  from decay have f0: "flow ?idle = 0" by blast
  from decay have "pressure (sim_ticks ?idle [(4, ?j), (5, ?j)])
      = pressure ?s * (8 / 10) ^ length [(4 :: real, ?j), (5, ?j)]" by blast
  then have p2: "pressure (sim_ticks ?idle [(4, ?j), (5, ?j)]) = 64 / 25"
    by (simp only: vals) (simp add: power2_eq_square)
  from decay u(1) have "flow (sim_tick ?u 6 ?j) = flow ?u * (9 / 10)"
    and "pressure (sim_tick ?u 6 ?j) = pressure ?u * (8 / 10)"
    and "weight (sim_tick ?u 6 ?j)
         = (if weight ?u * (999 / 1000) < 5 / 100 then 0 else weight ?u * (999 / 1000))"
    by blast+
  then have g: "flow (sim_tick ?u 6 ?j) = 9 / 10" "pressure (sim_tick ?u 6 ?j) = 4"
    "weight (sim_tick ?u 6 ?j) = 0"
    by (simp_all only: u) simp_all
  from h1 vals h3 f0 p2 w2 u(1) g show ?thesis by blast
qed

text \<open>
  C10: \<open>notify_arduino\<close> is idempotent: a second call with the same status (at any clock
  reading) leaves the state as the first call left it, and a paddle value other than 0
  and 1 leaves the simulator unchanged.
\<close>

theorem sim_notify_arduino_idempotent:
  "sim_notify_arduino (sim_notify_arduino s t1 status) t2 status = sim_notify_arduino s t1 status
   \<and> (paddle status \<noteq> 0 \<and> paddle status \<noteq> 1 \<longrightarrow> sim_notify_arduino s t1 status = s)"
  by (simp add: sim_notify_arduino_def)

theorem sim_notify_arduino_idempotent_witness:
  "sim_notify_arduino
     (sim_notify_arduino (sim_init 36 0) 5 (ArduinoStatus_default \<lparr> paddle := 1 \<rparr>))
     7 (ArduinoStatus_default \<lparr> paddle := 1 \<rparr>)
   = (sim_init 36 0) \<lparr> shot_active := True, shot_start := 5, weight := 0, flow := 0 \<rparr>
   \<and> paddle (ArduinoStatus_default \<lparr> paddle := 2 \<rparr>) \<noteq> 0
   \<and> paddle (ArduinoStatus_default \<lparr> paddle := 2 \<rparr>) \<noteq> 1
   \<and> sim_notify_arduino (sim_init 36 0) 5 (ArduinoStatus_default \<lparr> paddle := 2 \<rparr>) = sim_init 36 0"
  using sim_notify_arduino_idempotent [of "sim_init 36 0" 5 "ArduinoStatus_default \<lparr> paddle := 1 \<rparr>" 7]
    sim_notify_arduino_idempotent [of "sim_init 36 0" 5 "ArduinoStatus_default \<lparr> paddle := 2 \<rparr>" 7]
  by (simp add: sim_notify_arduino_def sim_init_def ArduinoStatus_default_def)

section \<open>Properties of the Arduino client\<close>




lemma error_text_category:
  "\<exists>msg. error_text e = ''HTTP error: '' @ msg \<or> error_text e = ''Decode error: '' @ msg
     \<or> error_text e = ''Unexpected: '' @ msg"
  by (cases e) auto














































section \<open>Properties of the cloud source\<close>

lemma unprovided_notes: "unprovided (ShotMetrics_notes n) = (0, 0, 0, 0, False)"
  by (simp add: unprovided_def ShotMetrics_notes_def ShotMetrics_default_def)

lemma cloud_parse_dashboard_unprovided:
  "unprovided (cloud_parse_dashboard previous (Some f)) = unprovided previous"
  by (simp add: unprovided_def cloud_parse_dashboard_def)

lemma cloud_poll_unprovided:
  assumes "unprovided (latest c) = (0, 0, 0, 0, False)"
  shows "unprovided (latest (cloud_poll c p)) = (0, 0, 0, 0, False)"
proof (cases p)
  case (PollRaised msg)
  then show ?thesis by (simp add: cloud_poll_def unprovided_notes)
next
  case (Polled dash)
  with assms show ?thesis
    by (cases dash)
       (simp_all add: cloud_poll_def cloud_parse_dashboard_unprovided,
        simp add: cloud_parse_dashboard_def unprovided_notes)
qed

lemma cloud_poll_loop_unprovided:
  "unprovided (latest c) = (0, 0, 0, 0, False) \<Longrightarrow>
   unprovided (latest (cloud_poll_loop c polls)) = (0, 0, 0, 0, False)"
  by (induction c polls rule: cloud_poll_loop.induct) (simp_all add: cloud_poll_unprovided)

lemma cloud_get_snapshot_latest: "latest (snd (cloud_get_snapshot c now now2 j)) = latest c"
  by (simp add: cloud_get_snapshot_def Let_def)

lemma cloud_reachable_unprovided:
  "cloud_reachable c \<Longrightarrow> unprovided (latest c) = (0, 0, 0, 0, False)"
proof (induction rule: cloud_reachable.induct)
  case (init fb)
  show ?case by (simp add: cloud_init_def unprovided_notes)
next
  case (loop_main c s polls)
  then show ?case
    by (cases s) (simp_all add: cloud_loop_main_def cloud_poll_loop_unprovided unprovided_notes)
next
  case (poll c p)
  then show ?case by (simp add: cloud_poll_unprovided)
next
  case (stop c running)
  then show ?case by (simp add: cloud_stop_def Let_def)
next
  case (notify c now status)
  then show ?case by (simp add: cloud_notify_arduino_def)
next
  case (snapshot c now now2 j)
  then show ?case by (simp add: cloud_get_snapshot_latest)
qed

text \<open>
  C3 (amended): in every state the cloud source can reach, the reading published by a
  poll cycle has the same \<open>weight_g\<close>, \<open>flow_g_s\<close>, \<open>pressure_bar\<close>, \<open>group_temp_c\<close> and
  \<open>scale_connected\<close> as the reading before it, and these are always the defaults. A
  cycle that parses a dashboard copies them from the previous reading (in any state); a
  failed cycle, or one without dashboard data, publishes the all-default reading that
  carries only the note.
\<close>

theorem cloud_poll_carries_unprovided:
  assumes "cloud_reachable c"
  shows "unprovided (latest (cloud_poll c p)) = unprovided (latest c)
    \<and> unprovided (latest c) = (0, 0, 0, 0, False)
    \<and> unprovided (latest (cloud_poll c' (Polled (Some f)))) = unprovided (latest c')
    \<and> notes (latest (cloud_poll c' (Polled (Some f)))) = ''Cloud dashboard''
    \<and> latest (cloud_poll c' (PollRaised msg)) = ShotMetrics_notes (''Cloud error: '' @ msg)
    \<and> latest (cloud_poll c' (Polled None)) = ShotMetrics_notes ''No dashboard data yet''"
proof -
  have d: "unprovided (latest c) = (0, 0, 0, 0, False)"
    using assms by (rule cloud_reachable_unprovided)
  have "unprovided (latest (cloud_poll c p)) = (0, 0, 0, 0, False)"
    using d by (rule cloud_poll_unprovided)
  with d show ?thesis
    by (simp add: cloud_poll_def cloud_parse_dashboard_unprovided)
       (simp add: cloud_parse_dashboard_def)
qed

theorem cloud_poll_carries_unprovided_witness:
  "cloud_reachable (cloud_loop_main (cloud_init (sim_init 36 0)) StartupOk [])
   \<and> unprovided (latest (cloud_poll
        (cloud_loop_main (cloud_init (sim_init 36 0)) StartupOk [])
        (Polled (Some \<lparr> df_status = ''BrewingMode'', df_shot_time_ms = 1200,
                        df_target_weight = 36, df_boiler_temp = 94 \<rparr>))))
     = (0, 0, 0, 0, False)
   \<and> latest (cloud_poll
        (cloud_loop_main (cloud_init (sim_init 36 0)) StartupOk [])
        (PollRaised ''timeout'')) = ShotMetrics_notes ''Cloud error: timeout''"
proof -
  have h: "cloud_reachable (cloud_loop_main (cloud_init (sim_init 36 0)) StartupOk [])"
    by (rule cloud_reachable.loop_main [OF cloud_reachable.init])
  from cloud_poll_carries_unprovided [OF h,
      of "Polled (Some \<lparr> df_status = ''BrewingMode'', df_shot_time_ms = 1200,
                        df_target_weight = 36, df_boiler_temp = 94 \<rparr>)"
         "cloud_loop_main (cloud_init (sim_init 36 0)) StartupOk []" _ "''timeout''"] h
  show ?thesis by simp
qed

text \<open>
  C3 as stated fails: a failed cycle changes more than the note. After one parsed
  dashboard with boiler temperature 94 and target weight 36, a cycle that raises
  publishes boiler temperature 0, target weight 0, shot time 0 and state IDLE.
\<close>

theorem cloud_poll_failure_counterexample:
  "boiler_temp_c (latest (cloud_loop_main (cloud_init (sim_init 36 0)) StartupOk
      [Polled (Some \<lparr> df_status = ''BrewingMode'', df_shot_time_ms = 1200,
                      df_target_weight = 36, df_boiler_temp = 94 \<rparr>)])) = 94
   \<and> latest (cloud_loop_main (cloud_init (sim_init 36 0)) StartupOk
      [Polled (Some \<lparr> df_status = ''BrewingMode'', df_shot_time_ms = 1200,
                      df_target_weight = 36, df_boiler_temp = 94 \<rparr>),
       PollRaised ''timeout''])
     = \<lparr> weight_g = 0, flow_g_s = 0, shot_time_ms = 0, target_weight_g = 0,
         pressure_bar = 0, boiler_temp_c = 0, group_temp_c = 0,
         brew_state = ''IDLE'', scale_connected = False, notes = ''Cloud error: timeout'' \<rparr>
   \<and> latest (cloud_loop_main (cloud_init (sim_init 36 0)) StartupOk
      [Polled (Some \<lparr> df_status = ''BrewingMode'', df_shot_time_ms = 1200,
                      df_target_weight = 36, df_boiler_temp = 94 \<rparr>),
       PollRaised ''timeout''])
     \<noteq> (latest (cloud_loop_main (cloud_init (sim_init 36 0)) StartupOk
      [Polled (Some \<lparr> df_status = ''BrewingMode'', df_shot_time_ms = 1200,
                      df_target_weight = 36, df_boiler_temp = 94 \<rparr>)]))
        \<lparr> notes := ''Cloud error: timeout'' \<rparr>"
  by (simp add: cloud_loop_main_def cloud_init_def cloud_poll_def cloud_parse_dashboard_def
      ShotMetrics_notes_def ShotMetrics_default_def)

text \<open>
  C8: when readiness is signalled and the note of the last recorded reading starts with
  \<open>Cloud disabled\<close>, \<open>get_snapshot\<close> returns what the fallback simulator's
  \<open>get_snapshot\<close> returns, and leaves the fallback as that call leaves it. A failed
  start-up of \<open>_loop_main\<close> puts the source into that condition.
\<close>

theorem cloud_get_snapshot_delegates:
  assumes "ready c" and "prefix ''Cloud disabled'' (notes (latest c))"
  shows "cloud_get_snapshot c now now2 j
      = (fst (sim_get_snapshot (fallback c) now now2 j),
         c \<lparr> fallback := snd (sim_get_snapshot (fallback c) now now2 j) \<rparr>)
    \<and> fst (cloud_get_snapshot c now now2 j) = fst (sim_get_snapshot (fallback c) now now2 j)
    \<and> fallback (snd (cloud_get_snapshot c now now2 j))
      = snd (sim_get_snapshot (fallback c) now now2 j)
    \<and> ready (cloud_loop_main c0 (StartupFailed msg) polls)
    \<and> prefix ''Cloud disabled'' (notes (latest (cloud_loop_main c0 (StartupFailed msg) polls)))"
  using assms
  by (simp add: cloud_get_snapshot_def Let_def cloud_loop_main_def ShotMetrics_notes_def)

theorem cloud_get_snapshot_delegates_witness:
  "ready (cloud_loop_main (cloud_init (sim_init 36 0)) (StartupFailed ''no network'') [])
   \<and> prefix ''Cloud disabled''
       (notes (latest (cloud_loop_main (cloud_init (sim_init 36 0)) (StartupFailed ''no network'') [])))
   \<and> fst (cloud_get_snapshot
        (cloud_loop_main (cloud_init (sim_init 36 0)) (StartupFailed ''no network'') [])
        1 1 \<lparr> j_flow = 0, j_pressure = 0, j_boiler = 0, j_group = 0 \<rparr>)
     = fst (sim_get_snapshot (sim_init 36 0) 1 1
          \<lparr> j_flow = 0, j_pressure = 0, j_boiler = 0, j_group = 0 \<rparr>)
   \<and> notes (fst (cloud_get_snapshot
        (cloud_loop_main (cloud_init (sim_init 36 0)) (StartupFailed ''no network'') [])
        1 1 \<lparr> j_flow = 0, j_pressure = 0, j_boiler = 0, j_group = 0 \<rparr>)) = ''Simulated''"
proof -
  let ?c = "cloud_loop_main (cloud_init (sim_init 36 0)) (StartupFailed ''no network'') []"
  have h1: "ready ?c" by (simp add: cloud_loop_main_def)
  have h2: "prefix ''Cloud disabled'' (notes (latest ?c))"
    by (simp add: cloud_loop_main_def ShotMetrics_notes_def)
  have fb: "fallback ?c = sim_init 36 0" by (simp add: cloud_loop_main_def cloud_init_def)
  have n: "notes (fst (sim_get_snapshot (sim_init 36 0) 1 1
          \<lparr> j_flow = 0, j_pressure = 0, j_boiler = 0, j_group = 0 \<rparr>)) = ''Simulated''"
    by (simp add: sim_get_snapshot_def Let_def)
  from cloud_get_snapshot_delegates [OF h1 h2, of 1 1
      "\<lparr> j_flow = 0, j_pressure = 0, j_boiler = 0, j_group = 0 \<rparr>"] h1 h2 fb n
  show ?thesis by simp
qed

text \<open>
  C9: before readiness is signalled, \<open>get_snapshot\<close> returns the all-default reading
  with the note \<open>Connecting to cloud...\<close> and changes nothing, so every further call
  (also after a \<open>notify_arduino\<close>) returns the same reading.
\<close>

theorem cloud_get_snapshot_connecting:
  assumes "\<not> ready c"
  shows "cloud_get_snapshot c now now2 j = (ShotMetrics_notes ''Connecting to cloud...'', c)
    \<and> fst (cloud_get_snapshot c now now2 j)
      = \<lparr> weight_g = 0, flow_g_s = 0, shot_time_ms = 0, target_weight_g = 0,
          pressure_bar = 0, boiler_temp_c = 0, group_temp_c = 0,
          brew_state = ''IDLE'', scale_connected = False, notes = ''Connecting to cloud...'' \<rparr>
    \<and> fst (cloud_get_snapshot (snd (cloud_get_snapshot c now now2 j)) now' now2' j')
      = fst (cloud_get_snapshot c now now2 j)
    \<and> \<not> ready (snd (cloud_get_snapshot (cloud_notify_arduino c t status) now now2 j))"
  using assms
  by (simp add: cloud_get_snapshot_def cloud_notify_arduino_def ShotMetrics_notes_def
      ShotMetrics_default_def)

theorem cloud_get_snapshot_connecting_witness:
  "\<not> ready (cloud_init (sim_init 36 0))
   \<and> cloud_get_snapshot (cloud_init (sim_init 36 0)) 1 1
        \<lparr> j_flow = 0, j_pressure = 0, j_boiler = 0, j_group = 0 \<rparr>
     = (ShotMetrics_notes ''Connecting to cloud...'', cloud_init (sim_init 36 0))"
proof -
  have h: "\<not> ready (cloud_init (sim_init 36 0))" by (simp add: cloud_init_def)
  from cloud_get_snapshot_connecting [OF h] h show ?thesis by simp
qed

section \<open>Properties of the coordinator\<close>




end
